theory Spec2Isabelle
  imports Main
begin

section \<open>The PDF endpoint of server.py\<close>

text \<open>
  This theory embeds \<^verbatim>\<open>generate_pdf\<close> (server.py, lines 62 to 147): the handler of
  \<^verbatim>\<open>POST /api/generate-pdf\<close>. The handler builds a list of blocks (\<^verbatim>\<open>story\<close>),
  hands it to the layout engine and returns the bytes with a \<^verbatim>\<open>Content-Disposition\<close>
  header. The calls into json, reportlab and starlette are parameters of the model
  (record \<open>lib\<close>): each of them can raise, and where the handler catches the
  exception and where it does not is what the model keeps.
\<close>

subsection \<open>Python strings\<close>

text \<open>
  A Python \<^verbatim>\<open>str\<close> is a sequence of code points. A literal of the source is written
  \<open>str_lit ''docs''\<close>; a code point beyond ASCII is written as its number
  (\<open>0xED\<close> is i with acute, \<open>0xE3\<close> a with tilde, \<open>0xF3\<close> o with acute).
\<close>

type_synonym pystr = "nat list"

definition str_lit :: "string \<Rightarrow> pystr" where
  "str_lit s = map of_char s"

text \<open>\<^verbatim>\<open>str.isspace\<close> of one code point: the table of CPython's \<^verbatim>\<open>_PyUnicode_IsWhitespace\<close>.\<close>

definition py_isspace :: "nat \<Rightarrow> bool" where
  "py_isspace c = ((0x09 \<le> c \<and> c \<le> 0x0D) \<or> (0x1C \<le> c \<and> c \<le> 0x20) \<or> c = 0x85 \<or> c = 0xA0
     \<or> c = 0x1680 \<or> (0x2000 \<le> c \<and> c \<le> 0x200A) \<or> c = 0x2028 \<or> c = 0x2029
     \<or> c = 0x202F \<or> c = 0x205F \<or> c = 0x3000)"

text \<open>\<^verbatim>\<open>s.strip()\<close>: whitespace removed at both ends.\<close>

definition py_strip :: "pystr \<Rightarrow> pystr" where
  "py_strip s = rev (dropWhile py_isspace (rev (dropWhile py_isspace s)))"

text \<open>
  \<^verbatim>\<open>s.split(sep)\<close> for a separator of one code point: the pieces between the
  occurrences of \<open>sep\<close>, the empty ones included, so the result is never empty.
\<close>

fun py_split :: "nat \<Rightarrow> pystr \<Rightarrow> pystr list" where
  "py_split sep [] = [[]]"
| "py_split sep (c # cs) =
     (if c = sep then [] # py_split sep cs
      else (case py_split sep cs of
              [] \<Rightarrow> [[c]]
            | piece # pieces \<Rightarrow> (c # piece) # pieces))"

text \<open>\<^verbatim>\<open>s.replace(old, new)\<close> where \<open>old\<close> and \<open>new\<close> are one code point each.\<close>

definition py_replace :: "nat \<Rightarrow> nat \<Rightarrow> pystr \<Rightarrow> pystr" where
  "py_replace old new s = map (\<lambda>c. if c = old then new else c) s"

subsection \<open>Python values\<close>

text \<open>
  What \<^verbatim>\<open>json.loads\<close> returns: \<^verbatim>\<open>None\<close>, a bool, an int, a float, a str, a list or
  a dict. A float is \<open>m * 2 ^ e\<close>, an infinity or a NaN; the handler only tests it
  for truth. A dict is the list of its items in insertion order, with distinct keys.
\<close>

datatype pyfloat = PFinite int int | PInf bool | PNaN

datatype pyval =
    PNone
  | PBool bool
  | PInt int
  | PFloat pyfloat
  | PStr pystr
  | PList "pyval list"
  | PDict "(pystr \<times> pyval) list"

datatype error =
    JSONDecodeError
  | TypeError
  | AttributeError
  | ValueError
  | LayoutError
  | UnicodeEncodeError

fun float_truthy :: "pyfloat \<Rightarrow> bool" where
  "float_truthy (PFinite m e) = (m \<noteq> 0)"
| "float_truthy (PInf s) = True"
| "float_truthy PNaN = True"

text \<open>The truth value Python gives a value in \<^verbatim>\<open>if v\<close> and \<^verbatim>\<open>a if v else b\<close>.\<close>

fun truthy :: "pyval \<Rightarrow> bool" where
  "truthy PNone = False"
| "truthy (PBool b) = b"
| "truthy (PInt i) = (i \<noteq> 0)"
| "truthy (PFloat f) = float_truthy f"
| "truthy (PStr s) = (s \<noteq> [])"
| "truthy (PList xs) = (xs \<noteq> [])"
| "truthy (PDict d) = (d \<noteq> [])"

text \<open>
  \<^verbatim>\<open>for item in v\<close>: a list gives its elements, a dict its keys, a str its
  characters; anything else is not iterable.
\<close>

fun py_iter :: "pyval \<Rightarrow> error + pyval list" where
  "py_iter (PList xs) = Inr xs"
| "py_iter (PDict d) = Inr (map (\<lambda>kv. PStr (fst kv)) d)"
| "py_iter (PStr s) = Inr (map (\<lambda>c. PStr [c]) s)"
| "py_iter v = Inl TypeError"

text \<open>\<^verbatim>\<open>v.get(key, default)\<close>: only a dict has the method.\<close>

definition dict_get :: "(pystr \<times> pyval) list \<Rightarrow> pystr \<Rightarrow> pyval \<Rightarrow> pyval" where
  "dict_get d key dflt = (case map_of d key of None \<Rightarrow> dflt | Some v \<Rightarrow> v)"

fun py_get :: "pyval \<Rightarrow> pystr \<Rightarrow> pyval \<Rightarrow> error + pyval" where
  "py_get (PDict d) key dflt = Inr (dict_get d key dflt)"
| "py_get v key dflt = Inl AttributeError"

subsection \<open>Blocks, requests, responses\<close>

text \<open>
  The two paragraph styles of the handler: \<open>CustomTitle\<close> (lines 71 to 77) and
  \<^verbatim>\<open>styles['Normal']\<close>. The two table styles are the command lists of lines 104 to 113
  and 124 to 133. A table keeps the data it was built from and its column widths
  (in points: an inch is 72), when the handler gives them.
\<close>

datatype pstyle = CustomTitle | Normal

datatype tstyle = AgendaStyle | PlanilhasStyle

datatype block =
    Paragraph pystr pstyle
  | Spacer nat nat
  | Table pyval "nat list option" tstyle

record PDFContentModel =
  title :: pystr
  content :: pystr
  type :: pystr

record response =
  body :: "block list"
  media_type :: pystr
  headers :: "(pystr \<times> pystr) list"

subsection \<open>The libraries\<close>

text \<open>
  What the handler calls and does not define:
  \<^item> \<open>json_loads\<close>: \<^verbatim>\<open>json.loads\<close>; \<open>None\<close> when it raises;
  \<^item> \<open>Paragraph_ok\<close>: whether reportlab's \<^verbatim>\<open>Paragraph(text, style)\<close> accepts the text
    (it parses the text as markup and raises \<^verbatim>\<open>ValueError\<close> when that fails);
  \<^item> \<open>Table_ok\<close>: whether reportlab's \<^verbatim>\<open>Table(data)\<close> accepts the data (it raises
    \<^verbatim>\<open>ValueError\<close> or \<^verbatim>\<open>TypeError\<close> on data that is not a grid of cells);
  \<^item> \<open>build_ok\<close>: whether \<^verbatim>\<open>doc.build(story)\<close> lays the story out;
  \<^item> \<open>header_ok\<close>: whether starlette can encode a header value.
\<close>

record lib =
  json_loads :: "pystr \<Rightarrow> pyval option"
  Paragraph_ok :: "pystr \<Rightarrow> bool"
  Table_ok :: "pyval \<Rightarrow> bool"
  build_ok :: "block list \<Rightarrow> bool"
  header_ok :: "pystr \<Rightarrow> bool"

definition mk_Paragraph :: "lib \<Rightarrow> pystr \<Rightarrow> pstyle \<Rightarrow> error + block" where
  "mk_Paragraph L text style =
     (if Paragraph_ok L text then Inr (Paragraph text style) else Inl ValueError)"

definition mk_Table :: "lib \<Rightarrow> pyval \<Rightarrow> nat list option \<Rightarrow> tstyle \<Rightarrow> error + block" where
  "mk_Table L data widths style =
     (if Table_ok L data then Inr (Table data widths style) else Inl ValueError)"

subsection \<open>The handler\<close>

text \<open>Lines 85 to 88: the loop over the lines of a text document.\<close>

fun docs_loop :: "lib \<Rightarrow> pystr list \<Rightarrow> block list \<Rightarrow> error + block list" where
  "docs_loop L [] story = Inr story"
| "docs_loop L (line # lines) story =
     (if py_strip line \<noteq> [] then
        (case mk_Paragraph L line Normal of
           Inl e \<Rightarrow> Inl e
         | Inr p \<Rightarrow> docs_loop L lines (story @ [p, Spacer 1 12]))
      else docs_loop L lines story)"

definition agenda_header :: "pyval list" where
  "agenda_header =
     [PStr (str_lit ''T'' @ [0xED] @ str_lit ''tulo''), PStr (str_lit ''Data''),
      PStr (str_lit ''Hora''), PStr (str_lit ''Status'')]"

definition Concluido :: pystr where
  "Concluido = str_lit ''Conclu'' @ [0xED] @ str_lit ''do''"

definition Pendente :: pystr where
  "Pendente = str_lit ''Pendente''"

text \<open>Lines 96 to 101: the row of one item, its four cells evaluated left to right.\<close>

definition agenda_row :: "pyval \<Rightarrow> error + pyval list" where
  "agenda_row item =
     (case py_get item (str_lit ''title'') (PStr []) of
        Inl e \<Rightarrow> Inl e
      | Inr t \<Rightarrow>
     (case py_get item (str_lit ''date'') (PStr []) of
        Inl e \<Rightarrow> Inl e
      | Inr d \<Rightarrow>
     (case py_get item (str_lit ''time'') (PStr []) of
        Inl e \<Rightarrow> Inl e
      | Inr tm \<Rightarrow>
     (case py_get item (str_lit ''completed'') PNone of
        Inl e \<Rightarrow> Inl e
      | Inr c \<Rightarrow> Inr [t, d, tm, PStr (if truthy c then Concluido else Pendente)]))))"

text \<open>Lines 95 to 101: the loop that appends one row per item.\<close>

fun agenda_loop :: "pyval list \<Rightarrow> pyval list list \<Rightarrow> error + pyval list list" where
  "agenda_loop [] table_data = Inr table_data"
| "agenda_loop (item # items) table_data =
     (case agenda_row item of
        Inl e \<Rightarrow> Inl e
      | Inr row \<Rightarrow> agenda_loop items (table_data @ [row]))"

definition agenda_widths :: "nat list" where
  "agenda_widths = [180, 108, 72, 108]"

text \<open>Lines 93 to 114: the body of the \<^verbatim>\<open>try\<close> of the agenda branch.\<close>

definition agenda_try :: "lib \<Rightarrow> pystr \<Rightarrow> block list \<Rightarrow> error + block list" where
  "agenda_try L c story =
     (case json_loads L c of
        None \<Rightarrow> Inl JSONDecodeError
      | Some items \<Rightarrow>
     (case py_iter items of
        Inl e \<Rightarrow> Inl e
      | Inr its \<Rightarrow>
     (case agenda_loop its [agenda_header] of
        Inl e \<Rightarrow> Inl e
      | Inr table_data \<Rightarrow>
     (case mk_Table L (PList (map PList table_data)) (Some agenda_widths) AgendaStyle of
        Inl e \<Rightarrow> Inl e
      | Inr table \<Rightarrow> Inr (story @ [table])))))"

text \<open>Lines 121 to 134: the body of the \<^verbatim>\<open>try\<close> of the spreadsheet branch.\<close>

definition planilhas_try :: "lib \<Rightarrow> pystr \<Rightarrow> block list \<Rightarrow> error + block list" where
  "planilhas_try L c story =
     (case json_loads L c of
        None \<Rightarrow> Inl JSONDecodeError
      | Some rows \<Rightarrow>
          (if truthy rows then
             (case mk_Table L rows None PlanilhasStyle of
                Inl e \<Rightarrow> Inl e
              | Inr table \<Rightarrow> Inr (story @ [table]))
           else Inr story))"

text \<open>
  Lines 115 to 116 and 135 to 136: the bare \<^verbatim>\<open>except\<close>. Whatever the \<^verbatim>\<open>try\<close> raised is
  dropped and the raw content becomes one paragraph; what that paragraph raises
  is not caught.
\<close>

definition except_fallback :: "lib \<Rightarrow> pystr \<Rightarrow> block list \<Rightarrow> error + block list \<Rightarrow> error + block list" where
  "except_fallback L c story tried =
     (case tried of
        Inr story' \<Rightarrow> Inr story'
      | Inl e \<Rightarrow>
          (case mk_Paragraph L c Normal of
             Inl e' \<Rightarrow> Inl e'
           | Inr p \<Rightarrow> Inr (story @ [p])))"

text \<open>Lines 67 to 136: the story.\<close>

definition build_story :: "lib \<Rightarrow> PDFContentModel \<Rightarrow> error + block list" where
  "build_story L data =
     (case mk_Paragraph L (title data) CustomTitle of
        Inl e \<Rightarrow> Inl e
      | Inr title_par \<Rightarrow>
          (let story = [title_par, Spacer 1 12] in
           if type data = str_lit ''docs'' then
             docs_loop L (py_split 0x0A (content data)) story
           else if type data = str_lit ''agenda'' then
             except_fallback L (content data) story (agenda_try L (content data) story)
           else if type data = str_lit ''planilhas'' then
             except_fallback L (content data) story (planilhas_try L (content data) story)
           else Inr story))"

text \<open>Line 146: the value of the \<^verbatim>\<open>Content-Disposition\<close> header.\<close>

definition pdf_filename :: "pystr \<Rightarrow> pystr" where
  "pdf_filename t = py_replace 0x20 0x5F t @ str_lit ''.pdf''"

definition content_disposition :: "pystr \<Rightarrow> pystr" where
  "content_disposition t = str_lit ''attachment; filename='' @ pdf_filename t"

text \<open>Lines 63 to 147: the handler. The body of the response is the story as laid out.\<close>

definition generate_pdf :: "lib \<Rightarrow> PDFContentModel \<Rightarrow> error + response" where
  "generate_pdf L data =
     (case build_story L data of
        Inl e \<Rightarrow> Inl e
      | Inr story \<Rightarrow>
          (if \<not> build_ok L story then Inl LayoutError
           else if \<not> header_ok L (content_disposition (title data)) then Inl UnicodeEncodeError
           else Inr \<lparr>body = story,
                     media_type = str_lit ''application/pdf'',
                     headers = [(str_lit ''Content-Disposition'',
                                 content_disposition (title data))]\<rparr>))"

subsection \<open>The words of the specification\<close>

text \<open>
  The row the specification gives a record: its \<^verbatim>\<open>title\<close>, \<^verbatim>\<open>date\<close> and \<^verbatim>\<open>time\<close>, the
  empty string where one is missing, and the label of its \<^verbatim>\<open>completed\<close> field.
\<close>

definition record_row :: "(pystr \<times> pyval) list \<Rightarrow> pyval list" where
  "record_row r =
     [dict_get r (str_lit ''title'') (PStr []),
      dict_get r (str_lit ''date'') (PStr []),
      dict_get r (str_lit ''time'') (PStr []),
      PStr (if truthy (dict_get r (str_lit ''completed'') PNone) then Concluido else Pendente)]"

text \<open>A line that is not blank after trimming.\<close>

definition non_blank :: "pystr \<Rightarrow> bool" where
  "non_blank line = (py_strip line \<noteq> [])"

text \<open>The blocks of the content body: the paragraphs in style \<^verbatim>\<open>Normal\<close>.\<close>

fun is_content_paragraph :: "block \<Rightarrow> bool" where
  "is_content_paragraph (Paragraph text Normal) = True"
| "is_content_paragraph b = False"

fun is_dict :: "pyval \<Rightarrow> bool" where
  "is_dict (PDict d) = True"
| "is_dict v = False"

text \<open>
  Structured parsing of an agenda fails: the text is not JSON, or the value cannot
  be iterated, or one of its elements is not a record.
\<close>

definition agenda_parse_fails :: "lib \<Rightarrow> pystr \<Rightarrow> bool" where
  "agenda_parse_fails L c =
     (case json_loads L c of
        None \<Rightarrow> True
      | Some v \<Rightarrow> (case py_iter v of Inl e \<Rightarrow> True | Inr its \<Rightarrow> \<not> list_all is_dict its))"

text \<open>
  A type tag that is one of the three names up to letter case and surrounding
  whitespace, and is not the name itself.
\<close>

definition ascii_lower :: "nat \<Rightarrow> nat" where
  "ascii_lower c = (if 0x41 \<le> c \<and> c \<le> 0x5A then c + 0x20 else c)"

definition variant_of :: "pystr \<Rightarrow> pystr \<Rightarrow> bool" where
  "variant_of name t = (t \<noteq> name \<and> map ascii_lower (py_strip t) = name)"

subsection \<open>A concrete library\<close>

text \<open>
  One instance of the library parameters, to run the handler on concrete requests.
  Its \<open>json_loads\<close> knows four texts and raises on every other one; its paragraphs
  reject the text \<^verbatim>\<open><b>\<close> (an opening tag that is never closed, on which reportlab
  raises \<^verbatim>\<open>ValueError\<close>) and accept the rest; its tables accept a non-empty list of
  non-empty lists; its layout accepts every story; its headers are encoded in
  latin-1, as starlette does.
\<close>

definition example_content :: pystr where
  \<open>example_content =
     str_lit ''[{"title":"Reuni'' @ [0xE3] @
     str_lit ''o","date":"2024-01-10","time":"10:00","completed":true}]''\<close>

definition example_items :: pyval where
  "example_items =
     PList [PDict [(str_lit ''title'', PStr (str_lit ''Reuni'' @ [0xE3] @ str_lit ''o'')),
                   (str_lit ''date'', PStr (str_lit ''2024-01-10'')),
                   (str_lit ''time'', PStr (str_lit ''10:00'')),
                   (str_lit ''completed'', PBool True)]]"

definition example_title :: pystr where
  "example_title = str_lit ''Relat'' @ [0xF3] @ str_lit ''rio''"

definition example_table :: pyval where
  "example_table =
     PList [PList [PStr (str_lit ''T'' @ [0xED] @ str_lit ''tulo''), PStr (str_lit ''Data''),
                   PStr (str_lit ''Hora''), PStr (str_lit ''Status'')],
            PList [PStr (str_lit ''Reuni'' @ [0xE3] @ str_lit ''o''), PStr (str_lit ''2024-01-10''),
                   PStr (str_lit ''10:00''), PStr (str_lit ''Conclu'' @ [0xED] @ str_lit ''do'')]]"

definition two_items_content :: pystr where
  \<open>two_items_content = str_lit ''[{"title":"a","completed":1},{"date":"b","completed":0}]''\<close>

definition two_items :: "pyval list" where
  "two_items =
     [PDict [(str_lit ''title'', PStr (str_lit ''a'')), (str_lit ''completed'', PInt 1)],
      PDict [(str_lit ''date'', PStr (str_lit ''b'')), (str_lit ''completed'', PInt 0)]]"

definition sample_loads :: "pystr \<Rightarrow> pyval option" where
  "sample_loads s =
     (if s = example_content then Some example_items
      else if s = two_items_content then Some (PList two_items)
      else if s = str_lit ''[]'' then Some (PList [])
      else if s = str_lit ''7'' then Some (PInt 7)
      else None)"

fun is_row :: "pyval \<Rightarrow> bool" where
  "is_row (PList cells) = (cells \<noteq> [])"
| "is_row v = False"

fun sample_Table_ok :: "pyval \<Rightarrow> bool" where
  "sample_Table_ok (PList rows) = (rows \<noteq> [] \<and> list_all is_row rows)"
| "sample_Table_ok v = False"

definition sample_lib :: lib where
  "sample_lib =
     \<lparr>json_loads = sample_loads,
      Paragraph_ok = (\<lambda>text. text \<noteq> str_lit ''<b>''),
      Table_ok = sample_Table_ok,
      build_ok = (\<lambda>story. True),
      header_ok = list_all (\<lambda>c. c < 256)\<rparr>"

section \<open>Properties of the handler\<close>

subsection \<open>Auxiliary facts\<close>

lemma names_distinct:
  "str_lit ''docs'' \<noteq> str_lit ''agenda''" "str_lit ''docs'' \<noteq> str_lit ''planilhas''"
  "str_lit ''agenda'' \<noteq> str_lit ''planilhas''"
  by (simp_all add: str_lit_def)

lemma Concluido_neq_Pendente: "Concluido \<noteq> Pendente"
  by (simp add: Concluido_def Pendente_def str_lit_def)

lemma docs_loop_blocks:
  "docs_loop L lines story = Inr s \<Longrightarrow>
   s = story @ concat (map (\<lambda>l. [Paragraph l Normal, Spacer 1 12]) (filter non_blank lines))"
proof (induction lines arbitrary: story)
  case Nil
  then show ?case by simp
next
  case (Cons line lines)
  show ?case
  proof (cases "non_blank line")
    case True
    with Cons.prems have ok: "Paragraph_ok L line"
      and run: "docs_loop L lines (story @ [Paragraph line Normal, Spacer 1 12]) = Inr s"
      by (auto simp: mk_Paragraph_def non_blank_def split: if_splits)
    from Cons.IH [OF run] True show ?thesis by simp
  next
    case False
    with Cons.prems have "docs_loop L lines story = Inr s"
      by (simp add: non_blank_def)
    from Cons.IH [OF this] False show ?thesis by simp
  qed
qed

lemma docs_loop_returns:
  "\<forall>l \<in> set lines. non_blank l \<longrightarrow> Paragraph_ok L l \<Longrightarrow>
   docs_loop L lines story =
     Inr (story @ concat (map (\<lambda>l. [Paragraph l Normal, Spacer 1 12]) (filter non_blank lines)))"
  by (induction lines arbitrary: story) (auto simp: mk_Paragraph_def non_blank_def)

lemma count_content_paragraphs:
  "length (filter is_content_paragraph
     (concat (map (\<lambda>l. [Paragraph l Normal, Spacer 1 12]) ls))) = length ls"
  by (induction ls) simp_all

lemma agenda_row_dict: "agenda_row (PDict r) = Inr (record_row r)"
  by (simp add: agenda_row_def record_row_def)

lemma agenda_row_other: "\<not> is_dict v \<Longrightarrow> agenda_row v = Inl AttributeError"
  by (cases v) (simp_all add: agenda_row_def)

lemma agenda_loop_records:
  "agenda_loop (map PDict recs) table_data = Inr (table_data @ map record_row recs)"
  by (induction recs arbitrary: table_data) (simp_all add: agenda_row_dict)

lemma agenda_loop_fails:
  "\<not> list_all is_dict its \<Longrightarrow> agenda_loop its table_data = Inl AttributeError"
proof (induction its arbitrary: table_data)
  case Nil
  then show ?case by simp
next
  case (Cons item its)
  show ?case
  proof (cases "is_dict item")
    case True
    then obtain r where "item = PDict r" by (cases item) simp_all
    with Cons show ?thesis by (simp add: agenda_row_dict)
  next
    case False
    then show ?thesis by (simp add: agenda_row_other)
  qed
qed

lemma agenda_try_fails:
  "agenda_parse_fails L c \<Longrightarrow> \<exists>e. agenda_try L c story = Inl e"
  by (auto simp: agenda_parse_fails_def agenda_try_def agenda_loop_fails
           split: option.splits sum.splits)

lemma agenda_try_records:
  assumes "json_loads L c = Some (PList (map PDict recs))"
    and "Table_ok L (PList (map PList (agenda_header # map record_row recs)))"
  shows "agenda_try L c story =
    Inr (story @ [Table (PList (map PList (agenda_header # map record_row recs)))
                    (Some agenda_widths) AgendaStyle])"
  using assms by (simp add: agenda_try_def agenda_loop_records mk_Table_def)

lemma build_story_title_only:
  "Paragraph_ok L (title d) \<Longrightarrow> type d \<noteq> str_lit ''docs'' \<Longrightarrow> type d \<noteq> str_lit ''agenda'' \<Longrightarrow>
   type d \<noteq> str_lit ''planilhas'' \<Longrightarrow>
   build_story L d = Inr [Paragraph (title d) CustomTitle, Spacer 1 12]"
  by (simp add: build_story_def mk_Paragraph_def Let_def)

lemma build_story_Inr_title:
  "build_story L d = Inr story \<Longrightarrow> Paragraph_ok L (title d)"
  by (auto simp: build_story_def mk_Paragraph_def split: if_splits)

lemma no_space_after_replace: "0x20 \<notin> set (pdf_filename t)"
  by (auto simp: pdf_filename_def py_replace_def str_lit_def)

lemma generate_pdf_headers:
  "generate_pdf L d = Inr r \<Longrightarrow>
   headers r = [(str_lit ''Content-Disposition'', content_disposition (title d))]"
  by (auto simp: generate_pdf_def split: sum.splits if_splits)

lemma generate_pdf_body:
  "generate_pdf L d = Inr r \<Longrightarrow> build_story L d = Inr (body r)"
  by (auto simp: generate_pdf_def split: sum.splits if_splits)

lemma except_fallback_returns:
  "Paragraph_ok L c \<Longrightarrow> \<exists>s. except_fallback L c story tried = Inr s"
  by (cases tried) (simp_all add: except_fallback_def mk_Paragraph_def)

lemma build_story_returns:
  assumes "Paragraph_ok L (title d)"
    and "type d = str_lit ''docs'' \<longrightarrow>
         (\<forall>l \<in> set (py_split 0x0A (content d)). non_blank l \<longrightarrow> Paragraph_ok L l)"
    and "type d = str_lit ''agenda'' \<or> type d = str_lit ''planilhas'' \<longrightarrow>
         Paragraph_ok L (content d)"
  shows "\<exists>story. build_story L d = Inr story"
proof -
  let ?base = "[Paragraph (title d) CustomTitle, Spacer 1 12]"
  consider (docs) "type d = str_lit ''docs''"
    | (tables) "type d \<noteq> str_lit ''docs''"
        "type d = str_lit ''agenda'' \<or> type d = str_lit ''planilhas''"
    | (other) "type d \<noteq> str_lit ''docs''" "type d \<noteq> str_lit ''agenda''"
        "type d \<noteq> str_lit ''planilhas''"
    by blast
  then show ?thesis
  proof cases
    case docs
    with assms(2) have "\<exists>s. docs_loop L (py_split 0x0A (content d)) ?base = Inr s"
      using docs_loop_returns [of "py_split 0x0A (content d)" L ?base] by simp
    with docs assms(1) show ?thesis
      by (simp add: build_story_def mk_Paragraph_def Let_def)
  next
    case tables
    with assms(3) have "\<exists>s. except_fallback L (content d) ?base tried = Inr s" for tried
      by (simp add: except_fallback_returns)
    with tables assms(1) show ?thesis
      by (auto simp: build_story_def mk_Paragraph_def Let_def)
  next
    case other
    with assms(1) show ?thesis
      by (simp add: build_story_title_only)
  qed
qed

lemma example_table_rows:
  "PList (map PList (agenda_header # map record_row
     [[(str_lit ''title'', PStr (str_lit ''Reuni'' @ [0xE3] @ str_lit ''o'')),
       (str_lit ''date'', PStr (str_lit ''2024-01-10'')),
       (str_lit ''time'', PStr (str_lit ''10:00'')),
       (str_lit ''completed'', PBool True)]])) = example_table"
  by (simp add: agenda_header_def record_row_def dict_get_def example_table_def
      Concluido_def str_lit_def)

lemma names_fixed:
  "map ascii_lower (py_strip (str_lit ''docs'')) = str_lit ''docs''"
  "map ascii_lower (py_strip (str_lit ''agenda'')) = str_lit ''agenda''"
  "map ascii_lower (py_strip (str_lit ''planilhas'')) = str_lit ''planilhas''"
  by (simp_all add: py_strip_def py_isspace_def ascii_lower_def str_lit_def)

lemma variant_unrecognised:
  assumes "variant_of (str_lit ''docs'') t \<or> variant_of (str_lit ''agenda'') t
           \<or> variant_of (str_lit ''planilhas'') t"
  shows "t \<noteq> str_lit ''docs'' \<and> t \<noteq> str_lit ''agenda'' \<and> t \<noteq> str_lit ''planilhas''"
proof -
  have "t \<noteq> name" if "variant_of name t" for name
    using that by (simp add: variant_of_def)
  moreover have "map ascii_lower (py_strip t) = name" if "variant_of name t" for name
    using that by (simp add: variant_of_def)
  ultimately show ?thesis
    using assms names_fixed names_distinct by metis
qed

lemma agenda_try_appends:
  "agenda_try L c story = Inr s \<Longrightarrow> \<exists>rest. s = story @ rest"
  by (auto simp: agenda_try_def split: option.splits sum.splits)

lemma planilhas_try_appends:
  "planilhas_try L c story = Inr s \<Longrightarrow> \<exists>rest. s = story @ rest"
  by (auto simp: planilhas_try_def split: option.splits sum.splits if_splits)

lemma except_fallback_appends:
  assumes "except_fallback L c story tried = Inr s"
    and "\<And>s'. tried = Inr s' \<Longrightarrow> \<exists>rest. s' = story @ rest"
  shows "\<exists>rest. s = story @ rest"
  using assms by (cases tried) (auto simp: except_fallback_def split: sum.splits)

lemma build_story_appends:
  assumes "build_story L d = Inr story"
  shows "\<exists>rest. story = [Paragraph (title d) CustomTitle, Spacer 1 12] @ rest"
proof -
  let ?base = "[Paragraph (title d) CustomTitle, Spacer 1 12]"
  have ok: "Paragraph_ok L (title d)"
    using assms by (rule build_story_Inr_title)
  consider (docs) "type d = str_lit ''docs''"
    | (agenda) "type d \<noteq> str_lit ''docs''" "type d = str_lit ''agenda''"
    | (planilhas) "type d \<noteq> str_lit ''docs''" "type d \<noteq> str_lit ''agenda''"
        "type d = str_lit ''planilhas''"
    | (other) "type d \<noteq> str_lit ''docs''" "type d \<noteq> str_lit ''agenda''"
        "type d \<noteq> str_lit ''planilhas''"
    by blast
  then show ?thesis
  proof cases
    case docs
    with assms ok have "docs_loop L (py_split 0x0A (content d)) ?base = Inr story"
      by (simp add: build_story_def mk_Paragraph_def Let_def)
    from docs_loop_blocks [OF this] show ?thesis by blast
  next
    case agenda
    with assms ok have
      "except_fallback L (content d) ?base (agenda_try L (content d) ?base) = Inr story"
      by (simp add: build_story_def mk_Paragraph_def Let_def)
    then show ?thesis
      by (rule except_fallback_appends) (rule agenda_try_appends)
  next
    case planilhas
    with assms ok have
      "except_fallback L (content d) ?base (planilhas_try L (content d) ?base) = Inr story"
      by (simp add: build_story_def mk_Paragraph_def Let_def)
    then show ?thesis
      by (rule except_fallback_appends) (rule planilhas_try_appends)
  next
    case other
    with assms ok show ?thesis
      by (simp add: build_story_title_only)
  qed
qed

subsection \<open>The agenda table\<close>

text \<open>
  Claim C1. An agenda whose content parses as a list of \<open>N\<close> records gives a table of
  \<open>N + 1\<close> rows: the header row, then the row of each record in order. In row
  \<open>i + 1\<close> a missing \<^verbatim>\<open>title\<close>, \<^verbatim>\<open>date\<close> or \<^verbatim>\<open>time\<close> is the empty string, and the fourth
  cell is the label of completion exactly when the \<^verbatim>\<open>completed\<close> field of record \<open>i\<close>
  is truthy, the label of pending otherwise. The story is the title, the spacer
  and that table, where the title paragraph and the table are accepted.
\<close>

theorem agenda_table_rows:
  assumes "type d = str_lit ''agenda''"
    and "json_loads L (content d) = Some (PList (map PDict recs))"
    and "Paragraph_ok L (title d)"
    and "Table_ok L (PList (map PList (agenda_header # map record_row recs)))"
  shows "build_story L d =
           Inr [Paragraph (title d) CustomTitle, Spacer 1 12,
                Table (PList (map PList (agenda_header # map record_row recs)))
                  (Some agenda_widths) AgendaStyle]
         \<and> length (agenda_header # map record_row recs) = length recs + 1
         \<and> (agenda_header # map record_row recs) ! 0 =
             [PStr (str_lit ''T'' @ [0xED] @ str_lit ''tulo''), PStr (str_lit ''Data''),
              PStr (str_lit ''Hora''), PStr (str_lit ''Status'')]
         \<and> (\<forall>i < length recs.
               (agenda_header # map record_row recs) ! (i + 1) =
                 [dict_get (recs ! i) (str_lit ''title'') (PStr []),
                  dict_get (recs ! i) (str_lit ''date'') (PStr []),
                  dict_get (recs ! i) (str_lit ''time'') (PStr []),
                  PStr (if truthy (dict_get (recs ! i) (str_lit ''completed'') PNone)
                        then str_lit ''Conclu'' @ [0xED] @ str_lit ''do''
                        else str_lit ''Pendente'')]
               \<and> ((agenda_header # map record_row recs) ! (i + 1) ! 3 =
                     PStr (str_lit ''Conclu'' @ [0xED] @ str_lit ''do'')
                   \<longleftrightarrow> truthy (dict_get (recs ! i) (str_lit ''completed'') PNone)))"
proof -
  have names: "str_lit ''agenda'' \<noteq> str_lit ''docs''"
    by (simp add: str_lit_def)
  have story: "build_story L d =
           Inr [Paragraph (title d) CustomTitle, Spacer 1 12,
                Table (PList (map PList (agenda_header # map record_row recs)))
                  (Some agenda_widths) AgendaStyle]"
    using assms names
    by (simp add: build_story_def mk_Paragraph_def except_fallback_def agenda_try_records)
  have rows: "\<forall>i < length recs.
               (agenda_header # map record_row recs) ! (i + 1) =
                 [dict_get (recs ! i) (str_lit ''title'') (PStr []),
                  dict_get (recs ! i) (str_lit ''date'') (PStr []),
                  dict_get (recs ! i) (str_lit ''time'') (PStr []),
                  PStr (if truthy (dict_get (recs ! i) (str_lit ''completed'') PNone)
                        then str_lit ''Conclu'' @ [0xED] @ str_lit ''do''
                        else str_lit ''Pendente'')]"
    by (simp add: record_row_def Concluido_def Pendente_def)
  have label: "\<forall>i < length recs.
      ((agenda_header # map record_row recs) ! (i + 1) ! 3 =
                     PStr (str_lit ''Conclu'' @ [0xED] @ str_lit ''do'')
                   \<longleftrightarrow> truthy (dict_get (recs ! i) (str_lit ''completed'') PNone))"
    using Concluido_neq_Pendente
    by (simp add: record_row_def Concluido_def Pendente_def)
  have header: "(agenda_header # map record_row recs) ! 0 =
             [PStr (str_lit ''T'' @ [0xED] @ str_lit ''tulo''), PStr (str_lit ''Data''),
              PStr (str_lit ''Hora''), PStr (str_lit ''Status'')]"
    by (simp add: agenda_header_def)
  from story rows label header show ?thesis by simp
qed

text \<open>The theorem on an agenda of two records, the second without a title.\<close>

theorem agenda_table_rows_witness:
  "build_story sample_lib
     \<lparr>title = str_lit ''t'', content = two_items_content, type = str_lit ''agenda''\<rparr> =
   Inr [Paragraph (str_lit ''t'') CustomTitle, Spacer 1 12,
        Table (PList [PList agenda_header,
                      PList [PStr (str_lit ''a''), PStr [], PStr [], PStr Concluido],
                      PList [PStr [], PStr (str_lit ''b''), PStr [], PStr Pendente]])
          (Some agenda_widths) AgendaStyle]"
proof -
  let ?d = "\<lparr>title = str_lit ''t'', content = two_items_content, type = str_lit ''agenda''\<rparr>"
  let ?recs = "[[(str_lit ''title'', PStr (str_lit ''a'')), (str_lit ''completed'', PInt 1)],
                [(str_lit ''date'', PStr (str_lit ''b'')), (str_lit ''completed'', PInt 0)]]"
  have r1: "record_row [(str_lit ''title'', PStr (str_lit ''a'')), (str_lit ''completed'', PInt 1)] =
      [PStr (str_lit ''a''), PStr [], PStr [], PStr Concluido]"
    by (simp add: record_row_def dict_get_def str_lit_def)
  have r2: "record_row [(str_lit ''date'', PStr (str_lit ''b'')), (str_lit ''completed'', PInt 0)] =
      [PStr [], PStr (str_lit ''b''), PStr [], PStr Pendente]"
    by (simp add: record_row_def dict_get_def str_lit_def)
  have h1: "type ?d = str_lit ''agenda''"
    by simp
  have h2: "json_loads sample_lib (content ?d) = Some (PList (map PDict ?recs))"
    by (simp add: sample_lib_def sample_loads_def two_items_content_def two_items_def
        example_content_def str_lit_def)
  have h3: "Paragraph_ok sample_lib (title ?d)"
    by (simp add: sample_lib_def str_lit_def)
  have h4: "Table_ok sample_lib (PList (map PList (agenda_header # map record_row ?recs)))"
    by (simp add: r1 r2 sample_lib_def agenda_header_def)
  from agenda_table_rows [OF h1 h2 h3 h4] show ?thesis
    by (simp add: r1 r2)
qed

subsection \<open>Text documents\<close>

text \<open>
  Claim C2. In a text document the content paragraphs are the lines of the content
  that are not blank after trimming, in order, each followed by the spacer
  \<^verbatim>\<open>Spacer(1, 12)\<close>; a blank line gives no block. So the number of content
  paragraphs is the number of such lines.
\<close>

theorem docs_paragraphs:
  assumes "type d = str_lit ''docs''"
    and "build_story L d = Inr story"
  shows "story = [Paragraph (title d) CustomTitle, Spacer 1 12] @
           concat (map (\<lambda>l. [Paragraph l Normal, Spacer 1 12])
             (filter (\<lambda>l. py_strip l \<noteq> []) (py_split 0x0A (content d))))
         \<and> length (filter is_content_paragraph story) =
             length (filter (\<lambda>l. py_strip l \<noteq> []) (py_split 0x0A (content d)))"
proof -
  from assms have
    "docs_loop L (py_split 0x0A (content d)) [Paragraph (title d) CustomTitle, Spacer 1 12] = Inr story"
    by (auto simp: build_story_def mk_Paragraph_def split: if_splits)
  from docs_loop_blocks [OF this]
  have story: "story = [Paragraph (title d) CustomTitle, Spacer 1 12] @
           concat (map (\<lambda>l. [Paragraph l Normal, Spacer 1 12])
             (filter non_blank (py_split 0x0A (content d))))" .
  have "length (filter is_content_paragraph story) =
          length (filter non_blank (py_split 0x0A (content d)))"
    using count_content_paragraphs [of "filter non_blank (py_split 0x0A (content d))"]
    by (subst story) simp
  with story show ?thesis
    unfolding non_blank_def by simp
qed

text \<open>The theorem on three lines, the second blank.\<close>

theorem docs_paragraphs_witness:
  "build_story sample_lib
     \<lparr>title = str_lit ''t'', content = str_lit ''a'' @ [0x0A, 0x20, 0x0A] @ str_lit ''b'',
      type = str_lit ''docs''\<rparr> =
   Inr [Paragraph (str_lit ''t'') CustomTitle, Spacer 1 12,
        Paragraph (str_lit ''a'') Normal, Spacer 1 12,
        Paragraph (str_lit ''b'') Normal, Spacer 1 12]
   \<and> length (filter is_content_paragraph
        [Paragraph (str_lit ''t'') CustomTitle, Spacer 1 12,
         Paragraph (str_lit ''a'') Normal, Spacer 1 12,
         Paragraph (str_lit ''b'') Normal, Spacer 1 12]) = 2
   \<and> py_split 0x0A (str_lit ''a'' @ [0x0A, 0x20, 0x0A] @ str_lit ''b'') =
       [str_lit ''a'', [0x20], str_lit ''b'']"
proof -
  let ?d = "\<lparr>title = str_lit ''t'', content = str_lit ''a'' @ [0x0A, 0x20, 0x0A] @ str_lit ''b'',
      type = str_lit ''docs''\<rparr>"
  have h1: "type ?d = str_lit ''docs''"
    by simp
  have h2: "build_story sample_lib ?d =
     Inr [Paragraph (str_lit ''t'') CustomTitle, Spacer 1 12,
        Paragraph (str_lit ''a'') Normal, Spacer 1 12,
        Paragraph (str_lit ''b'') Normal, Spacer 1 12]"
    by (simp add: build_story_def mk_Paragraph_def sample_lib_def str_lit_def
        py_strip_def py_isspace_def)
  have lines: "py_split 0x0A (str_lit ''a'' @ [0x0A, 0x20, 0x0A] @ str_lit ''b'') =
       [str_lit ''a'', [0x20], str_lit ''b'']"
    by (simp add: str_lit_def)
  from docs_paragraphs [OF h1 h2] h2 lines show ?thesis
    by (simp add: py_strip_def py_isspace_def str_lit_def)
qed

subsection \<open>The file name\<close>

text \<open>
  Claim C3. The file name of the \<^verbatim>\<open>Content-Disposition\<close> header is the title with
  every space replaced by an underscore, followed by \<^verbatim>\<open>.pdf\<close>. It holds no space that
  came from the title, and two requests with the same title get the same header,
  whatever their type and content.
\<close>

theorem filename_from_title:
  assumes "generate_pdf L d = Inr r"
  shows "headers r = [(str_lit ''Content-Disposition'',
                       str_lit ''attachment; filename='' @ pdf_filename (title d))]
         \<and> pdf_filename (title d) =
             map (\<lambda>c. if c = 0x20 then 0x5F else c) (title d) @ str_lit ''.pdf''
         \<and> 0x20 \<notin> set (pdf_filename (title d))
         \<and> (\<forall>d' r'. generate_pdf L d' = Inr r' \<and> title d' = title d \<longrightarrow> headers r' = headers r)"
proof -
  have "\<forall>d' r'. generate_pdf L d' = Inr r' \<and> title d' = title d \<longrightarrow> headers r' = headers r"
    using assms by (auto simp: generate_pdf_headers)
  moreover have "headers r = [(str_lit ''Content-Disposition'',
                       str_lit ''attachment; filename='' @ pdf_filename (title d))]"
    using generate_pdf_headers [OF assms] by (simp add: content_disposition_def)
  moreover have "pdf_filename (title d) =
             map (\<lambda>c. if c = 0x20 then 0x5F else c) (title d) @ str_lit ''.pdf''"
    by (simp add: pdf_filename_def py_replace_def)
  ultimately show ?thesis
    using no_space_after_replace [of "title d"] by blast
qed

text \<open>The theorem on a title with two spaces.\<close>

theorem filename_from_title_witness:
  "generate_pdf sample_lib
     \<lparr>title = str_lit ''My Report 1'', content = [], type = str_lit ''docs''\<rparr> =
   Inr \<lparr>body = [Paragraph (str_lit ''My Report 1'') CustomTitle, Spacer 1 12],
        media_type = str_lit ''application/pdf'',
        headers = [(str_lit ''Content-Disposition'',
                    str_lit ''attachment; filename=My_Report_1.pdf'')]\<rparr>
   \<and> pdf_filename (str_lit ''My Report 1'') = str_lit ''My_Report_1.pdf''"
proof -
  let ?d = "\<lparr>title = str_lit ''My Report 1'', content = [], type = str_lit ''docs''\<rparr>"
  let ?r = "\<lparr>body = [Paragraph (str_lit ''My Report 1'') CustomTitle, Spacer 1 12],
        media_type = str_lit ''application/pdf'',
        headers = [(str_lit ''Content-Disposition'',
                    str_lit ''attachment; filename=My_Report_1.pdf'')]\<rparr>"
  have h: "generate_pdf sample_lib ?d = Inr ?r"
    by (simp add: generate_pdf_def build_story_def mk_Paragraph_def sample_lib_def
        content_disposition_def pdf_filename_def py_replace_def py_strip_def str_lit_def)
  have "pdf_filename (str_lit ''My Report 1'') =
      map (\<lambda>c. if c = 0x20 then 0x5F else c) (str_lit ''My Report 1'') @ str_lit ''.pdf''"
    using filename_from_title [OF h, THEN conjunct2, THEN conjunct1] by simp
  then have "pdf_filename (str_lit ''My Report 1'') = str_lit ''My_Report_1.pdf''"
    by (simp add: str_lit_def)
  with h show ?thesis
    by simp
qed

subsection \<open>Unrecognised types\<close>

text \<open>
  Claim C4. A type other than \<^verbatim>\<open>docs\<close>, \<^verbatim>\<open>agenda\<close> and \<^verbatim>\<open>planilhas\<close> is no error: the story
  is the title block alone (the title paragraph and its spacer), with no content
  block after it.
\<close>

theorem unknown_type_title_only:
  assumes "type d \<noteq> str_lit ''docs''"
    and "type d \<noteq> str_lit ''agenda''"
    and "type d \<noteq> str_lit ''planilhas''"
    and "Paragraph_ok L (title d)"
  shows "build_story L d = Inr [Paragraph (title d) CustomTitle, Spacer 1 12]
         \<and> (\<forall>r. generate_pdf L d = Inr r \<longrightarrow>
                body r = [Paragraph (title d) CustomTitle, Spacer 1 12])"
proof -
  have "build_story L d = Inr [Paragraph (title d) CustomTitle, Spacer 1 12]"
    by (rule build_story_title_only [OF assms(4) assms(1-3)])
  then show ?thesis
    by (auto dest: generate_pdf_body)
qed

text \<open>The theorem on the type \<^verbatim>\<open>slides\<close>.\<close>

theorem unknown_type_title_only_witness:
  "build_story sample_lib
     \<lparr>title = str_lit ''t'', content = str_lit ''[]'', type = str_lit ''slides''\<rparr> =
   Inr [Paragraph (str_lit ''t'') CustomTitle, Spacer 1 12]"
proof -
  let ?d = "\<lparr>title = str_lit ''t'', content = str_lit ''[]'', type = str_lit ''slides''\<rparr>"
  have h1: "type ?d \<noteq> str_lit ''docs''"
    and h2: "type ?d \<noteq> str_lit ''agenda''"
    and h3: "type ?d \<noteq> str_lit ''planilhas''"
    by (simp_all add: str_lit_def)
  have h4: "Paragraph_ok sample_lib (title ?d)"
    by (simp add: sample_lib_def str_lit_def)
  from unknown_type_title_only [OF h1 h2 h3 h4] show ?thesis
    by simp
qed

text \<open>
  Claim C9. The type is compared as it is. A tag that is \<^verbatim>\<open>docs\<close>, \<^verbatim>\<open>agenda\<close> or
  \<^verbatim>\<open>planilhas\<close> only up to letter case or surrounding whitespace, such as \<^verbatim>\<open>Docs\<close>,
  \<^verbatim>\<open>AGENDA\<close> or \<^verbatim>\<open>docs\<close> with a trailing space, selects no layout: the story is the
  title block alone.
\<close>

theorem type_dispatch_exact:
  assumes "variant_of (str_lit ''docs'') (type d) \<or> variant_of (str_lit ''agenda'') (type d)
           \<or> variant_of (str_lit ''planilhas'') (type d)"
    and "Paragraph_ok L (title d)"
  shows "build_story L d = Inr [Paragraph (title d) CustomTitle, Spacer 1 12]"
  using variant_unrecognised [OF assms(1)] assms(2)
  by (simp add: build_story_title_only)

text \<open>The theorem on the three tags of the claim.\<close>

theorem type_dispatch_exact_witness:
  "build_story sample_lib
     \<lparr>title = str_lit ''t'', content = str_lit ''x'', type = str_lit ''Docs''\<rparr> =
   Inr [Paragraph (str_lit ''t'') CustomTitle, Spacer 1 12]
   \<and> build_story sample_lib
     \<lparr>title = str_lit ''t'', content = str_lit ''[]'', type = str_lit ''AGENDA''\<rparr> =
   Inr [Paragraph (str_lit ''t'') CustomTitle, Spacer 1 12]
   \<and> build_story sample_lib
     \<lparr>title = str_lit ''t'', content = str_lit ''x'', type = str_lit ''docs ''\<rparr> =
   Inr [Paragraph (str_lit ''t'') CustomTitle, Spacer 1 12]"
proof -
  let ?d1 = "\<lparr>title = str_lit ''t'', content = str_lit ''x'', type = str_lit ''Docs''\<rparr>"
  let ?d2 = "\<lparr>title = str_lit ''t'', content = str_lit ''[]'', type = str_lit ''AGENDA''\<rparr>"
  let ?d3 = "\<lparr>title = str_lit ''t'', content = str_lit ''x'', type = str_lit ''docs ''\<rparr>"
  have ok: "Paragraph_ok sample_lib (str_lit ''t'')"
    by (simp add: sample_lib_def str_lit_def)
  have v1: "variant_of (str_lit ''docs'') (type ?d1)"
    and v2: "variant_of (str_lit ''agenda'') (type ?d2)"
    and v3: "variant_of (str_lit ''docs'') (type ?d3)"
    by (simp_all add: variant_of_def ascii_lower_def py_strip_def py_isspace_def str_lit_def)
  from v1 ok have "build_story sample_lib ?d1 = Inr [Paragraph (title ?d1) CustomTitle, Spacer 1 12]"
    by (intro type_dispatch_exact) simp_all
  moreover from v2 ok have "build_story sample_lib ?d2 = Inr [Paragraph (title ?d2) CustomTitle, Spacer 1 12]"
    by (intro type_dispatch_exact) simp_all
  moreover from v3 ok have "build_story sample_lib ?d3 = Inr [Paragraph (title ?d3) CustomTitle, Spacer 1 12]"
    by (intro type_dispatch_exact) simp_all
  ultimately show ?thesis by simp
qed

subsection \<open>Spreadsheets\<close>

text \<open>
  Claim C5. A spreadsheet whose content parses to an empty collection of rows (or
  to any other falsy value) gives neither a table nor the fallback paragraph: the
  story is the title block alone.
\<close>

theorem planilhas_empty_no_table:
  assumes "type d = str_lit ''planilhas''"
    and "json_loads L (content d) = Some rows"
    and "\<not> truthy rows"
    and "Paragraph_ok L (title d)"
  shows "build_story L d = Inr [Paragraph (title d) CustomTitle, Spacer 1 12]"
  using assms names_distinct
  by (simp add: build_story_def mk_Paragraph_def except_fallback_def planilhas_try_def)

text \<open>The theorem on the content \<^verbatim>\<open>[]\<close>.\<close>

theorem planilhas_empty_no_table_witness:
  "json_loads sample_lib (str_lit ''[]'') = Some (PList [])
   \<and> build_story sample_lib
     \<lparr>title = str_lit ''t'', content = str_lit ''[]'', type = str_lit ''planilhas''\<rparr> =
   Inr [Paragraph (str_lit ''t'') CustomTitle, Spacer 1 12]"
proof -
  let ?d = "\<lparr>title = str_lit ''t'', content = str_lit ''[]'', type = str_lit ''planilhas''\<rparr>"
  have h1: "type ?d = str_lit ''planilhas''"
    by simp
  have h2: "json_loads sample_lib (content ?d) = Some (PList [])"
    by (simp add: sample_lib_def sample_loads_def two_items_content_def
        example_content_def str_lit_def)
  have h3: "\<not> truthy (PList [])"
    by simp
  have h4: "Paragraph_ok sample_lib (title ?d)"
    by (simp add: sample_lib_def str_lit_def)
  from planilhas_empty_no_table [OF h1 h2 h3 h4] h2 show ?thesis
    by simp
qed

subsection \<open>The fallback of the agenda\<close>

text \<open>
  When the \<^verbatim>\<open>try\<close> of the agenda raises and the paragraph constructor accepts the raw
  content, the story is the title block and the raw content as one paragraph in
  style \<^verbatim>\<open>Normal\<close>.
\<close>

lemma agenda_fallback_accepted:
  assumes "type d = str_lit ''agenda''"
    and "agenda_parse_fails L (content d)"
    and "Paragraph_ok L (title d)"
    and "Paragraph_ok L (content d)"
  shows "build_story L d =
           Inr [Paragraph (title d) CustomTitle, Spacer 1 12, Paragraph (content d) Normal]"
proof -
  obtain e where "agenda_try L (content d) [Paragraph (title d) CustomTitle, Spacer 1 12] = Inl e"
    using agenda_try_fails [OF assms(2)] by blast
  with assms names_distinct show ?thesis
    by (simp add: build_story_def mk_Paragraph_def except_fallback_def)
qed

text \<open>
  When the constructor rejects the raw content, the \<^verbatim>\<open>ValueError\<close> is raised inside the
  \<^verbatim>\<open>except\<close> clause and leaves the handler.
\<close>

lemma agenda_fallback_rejected:
  assumes "type d = str_lit ''agenda''"
    and "agenda_parse_fails L (content d)"
    and "Paragraph_ok L (title d)"
    and "\<not> Paragraph_ok L (content d)"
  shows "generate_pdf L d = Inl ValueError"
proof -
  obtain e where "agenda_try L (content d) [Paragraph (title d) CustomTitle, Spacer 1 12] = Inl e"
    using agenda_try_fails [OF assms(2)] by blast
  with assms names_distinct have "build_story L d = Inl ValueError"
    by (simp add: build_story_def mk_Paragraph_def except_fallback_def)
  then show ?thesis
    by (simp add: generate_pdf_def)
qed

text \<open>
  Claim C6. When structured parsing of an agenda fails, no exception is to reach
  the caller: the document holds the raw content as one unstyled paragraph. The
  bare \<^verbatim>\<open>except\<close> of lines 115 to 116 is there for this, and it misses the content
  that is not a paragraph either. The content \<^verbatim>\<open><b>\<close> is not JSON, so the \<^verbatim>\<open>try\<close> raises;
  the fallback paragraph then raises \<^verbatim>\<open>ValueError\<close>, and the handler returns no
  document.
\<close>

theorem agenda_fallback_raises:
  "agenda_parse_fails sample_lib (str_lit ''<b>'')
   \<and> generate_pdf sample_lib
     \<lparr>title = str_lit ''t'', content = str_lit ''<b>'', type = str_lit ''agenda''\<rparr> =
   Inl ValueError"
  by (simp add: agenda_parse_fails_def generate_pdf_def build_story_def except_fallback_def
      agenda_try_def mk_Paragraph_def sample_lib_def sample_loads_def two_items_content_def
      example_content_def str_lit_def)

subsection \<open>Failures that reach the caller\<close>

text \<open>
  Claim C7, amended. No failure of JSON parsing, of iterating the parsed value, of
  reading a record or of building a table reaches the caller. The handler returns
  a response whenever the paragraph constructor accepts the title, the content
  and each line of the content, the layout accepts the story and the header value
  can be encoded.
\<close>

theorem generate_pdf_returns:
  assumes "Paragraph_ok L (title d)"
    and "type d = str_lit ''docs'' \<longrightarrow>
         (\<forall>l \<in> set (py_split 0x0A (content d)). py_strip l \<noteq> [] \<longrightarrow> Paragraph_ok L l)"
    and "type d = str_lit ''agenda'' \<or> type d = str_lit ''planilhas'' \<longrightarrow>
         Paragraph_ok L (content d)"
    and "\<forall>story. build_story L d = Inr story \<longrightarrow> build_ok L story"
    and "header_ok L (content_disposition (title d))"
  shows "\<exists>r. generate_pdf L d = Inr r"
proof -
  have "type d = str_lit ''docs'' \<longrightarrow>
         (\<forall>l \<in> set (py_split 0x0A (content d)). non_blank l \<longrightarrow> Paragraph_ok L l)"
    using assms(2) by (simp add: non_blank_def)
  from build_story_returns [OF assms(1) this assms(3)]
  obtain story where "build_story L d = Inr story"
    by blast
  with assms(4,5) show ?thesis
    by (simp add: generate_pdf_def)
qed

text \<open>
  The theorem on a spreadsheet whose content is a number (the table constructor
  raises, the handler catches it and returns) and on a text document of three
  lines.
\<close>

theorem generate_pdf_returns_witness:
  "(\<exists>r. generate_pdf sample_lib
      \<lparr>title = str_lit ''t'', content = str_lit ''7'', type = str_lit ''planilhas''\<rparr> = Inr r)
   \<and> (\<exists>r. generate_pdf sample_lib
      \<lparr>title = str_lit ''t'', content = str_lit ''a'' @ [0x0A, 0x20, 0x0A] @ str_lit ''<b>x</b>'',
       type = str_lit ''docs''\<rparr> = Inr r)"
proof -
  let ?d = "\<lparr>title = str_lit ''t'', content = str_lit ''7'', type = str_lit ''planilhas''\<rparr>"
  let ?e = "\<lparr>title = str_lit ''t'',
             content = str_lit ''a'' @ [0x0A, 0x20, 0x0A] @ str_lit ''<b>x</b>'',
             type = str_lit ''docs''\<rparr>"
  have title_ok: "Paragraph_ok sample_lib (str_lit ''t'')"
    by (simp add: sample_lib_def str_lit_def)
  have header: "header_ok sample_lib (content_disposition (str_lit ''t''))"
    by (simp add: sample_lib_def content_disposition_def pdf_filename_def py_replace_def
        str_lit_def)
  have d2: "type ?d = str_lit ''docs'' \<longrightarrow>
      (\<forall>l \<in> set (py_split 0x0A (content ?d)). py_strip l \<noteq> [] \<longrightarrow> Paragraph_ok sample_lib l)"
    by (simp add: str_lit_def)
  have d3: "type ?d = str_lit ''agenda'' \<or> type ?d = str_lit ''planilhas'' \<longrightarrow>
      Paragraph_ok sample_lib (content ?d)"
    by (simp add: sample_lib_def str_lit_def)
  have d4: "\<forall>story. build_story sample_lib ?d = Inr story \<longrightarrow> build_ok sample_lib story"
    by (simp add: sample_lib_def)
  have e2: "type ?e = str_lit ''docs'' \<longrightarrow>
      (\<forall>l \<in> set (py_split 0x0A (content ?e)). py_strip l \<noteq> [] \<longrightarrow> Paragraph_ok sample_lib l)"
    by (simp add: sample_lib_def str_lit_def)
  have e3: "type ?e = str_lit ''agenda'' \<or> type ?e = str_lit ''planilhas'' \<longrightarrow>
      Paragraph_ok sample_lib (content ?e)"
    by (simp add: str_lit_def)
  have e4: "\<forall>story. build_story sample_lib ?e = Inr story \<longrightarrow> build_ok sample_lib story"
    by (simp add: sample_lib_def)
  have "\<exists>r. generate_pdf sample_lib ?d = Inr r"
    by (rule generate_pdf_returns [OF _ d2 d3 d4]) (simp_all add: title_ok header)
  moreover have "\<exists>r. generate_pdf sample_lib ?e = Inr r"
    by (rule generate_pdf_returns [OF _ e2 e3 e4]) (simp_all add: title_ok header)
  ultimately show ?thesis
    by blast
qed

text \<open>
  The title paragraph is built outside every \<^verbatim>\<open>try\<close>: with the title \<^verbatim>\<open><b>\<close> the
  handler raises \<^verbatim>\<open>ValueError\<close> and returns no document.
\<close>

theorem generate_pdf_counterexample:
  "generate_pdf sample_lib
     \<lparr>title = str_lit ''<b>'', content = [], type = str_lit ''docs''\<rparr> = Inl ValueError"
  by (simp add: generate_pdf_def build_story_def mk_Paragraph_def sample_lib_def str_lit_def)

subsection \<open>The example of the specification\<close>

text \<open>
  Claim C8. For the title of the example (\<open>example_title\<close>), the type \<^verbatim>\<open>agenda\<close> and
  the content of the example, which \<^verbatim>\<open>json.loads\<close> reads as one record, the table has
  the header row and the single body row of the example, and the header names the
  file by the title followed by \<^verbatim>\<open>.pdf\<close>: the title has no space to replace.
\<close>

theorem relatorio_example:
  assumes "json_loads L example_content = Some example_items"
    and "Paragraph_ok L example_title"
    and "Table_ok L example_table"
    and "build_ok L [Paragraph example_title CustomTitle, Spacer 1 12,
                     Table example_table (Some agenda_widths) AgendaStyle]"
    and "header_ok L (str_lit ''attachment; filename=Relat'' @ [0xF3] @ str_lit ''rio.pdf'')"
  shows "generate_pdf L \<lparr>title = example_title, content = example_content,
                         type = str_lit ''agenda''\<rparr> =
         Inr \<lparr>body = [Paragraph example_title CustomTitle, Spacer 1 12,
                      Table example_table (Some agenda_widths) AgendaStyle],
              media_type = str_lit ''application/pdf'',
              headers = [(str_lit ''Content-Disposition'',
                          str_lit ''attachment; filename=Relat'' @ [0xF3] @ str_lit ''rio.pdf'')]\<rparr>"
proof -
  let ?d = "\<lparr>title = example_title, content = example_content, type = str_lit ''agenda''\<rparr>"
  have loads: "json_loads L (content ?d) = Some (PList (map PDict
     [[(str_lit ''title'', PStr (str_lit ''Reuni'' @ [0xE3] @ str_lit ''o'')),
       (str_lit ''date'', PStr (str_lit ''2024-01-10'')),
       (str_lit ''time'', PStr (str_lit ''10:00'')),
       (str_lit ''completed'', PBool True)]]))"
    using assms(1) by (simp add: example_items_def)
  have tried: "agenda_try L (content ?d) [Paragraph example_title CustomTitle, Spacer 1 12] =
      Inr [Paragraph example_title CustomTitle, Spacer 1 12,
           Table example_table (Some agenda_widths) AgendaStyle]"
    using agenda_try_records [OF loads, of "[Paragraph example_title CustomTitle, Spacer 1 12]"]
      assms(3) by (simp only: example_table_rows) simp
  have names: "str_lit ''agenda'' \<noteq> str_lit ''docs''"
    by (simp add: str_lit_def)
  have story: "build_story L ?d =
      Inr [Paragraph example_title CustomTitle, Spacer 1 12,
           Table example_table (Some agenda_widths) AgendaStyle]"
    using tried assms(2) names
    by (simp add: build_story_def mk_Paragraph_def except_fallback_def)
  have disposition: "content_disposition example_title =
      str_lit ''attachment; filename=Relat'' @ [0xF3] @ str_lit ''rio.pdf''"
    by (simp add: content_disposition_def pdf_filename_def py_replace_def example_title_def
        str_lit_def)
  show ?thesis
    using story assms(4,5) by (simp add: generate_pdf_def disposition)
qed

text \<open>The theorem on the concrete library.\<close>

theorem relatorio_example_witness:
  "generate_pdf sample_lib
     \<lparr>title = example_title, content = example_content, type = str_lit ''agenda''\<rparr> =
   Inr \<lparr>body = [Paragraph example_title CustomTitle, Spacer 1 12,
                Table example_table (Some agenda_widths) AgendaStyle],
        media_type = str_lit ''application/pdf'',
        headers = [(str_lit ''Content-Disposition'',
                    str_lit ''attachment; filename=Relat'' @ [0xF3] @ str_lit ''rio.pdf'')]\<rparr>"
proof -
  have h1: "json_loads sample_lib example_content = Some example_items"
    by (simp add: sample_lib_def sample_loads_def)
  have h2: "Paragraph_ok sample_lib example_title"
    by (simp add: sample_lib_def example_title_def str_lit_def)
  have h3: "Table_ok sample_lib example_table"
    by (simp add: sample_lib_def example_table_def)
  have h4: "build_ok sample_lib [Paragraph example_title CustomTitle, Spacer 1 12,
                     Table example_table (Some agenda_widths) AgendaStyle]"
    by (simp add: sample_lib_def)
  have h5: "header_ok sample_lib
      (str_lit ''attachment; filename=Relat'' @ [0xF3] @ str_lit ''rio.pdf'')"
    by (simp add: sample_lib_def str_lit_def)
  from relatorio_example [OF h1 h2 h3 h4 h5] show ?thesis .
qed

subsection \<open>The title block\<close>

text \<open>
  Claim C10. Every story begins with the title paragraph followed by one spacer,
  whatever the type; for an unrecognised type these two blocks are the whole
  story, so the spacer is its last block.
\<close>

theorem story_begins_with_title:
  assumes "build_story L d = Inr story"
  shows "take 2 story = [Paragraph (title d) CustomTitle, Spacer 1 12]
         \<and> (type d \<noteq> str_lit ''docs'' \<and> type d \<noteq> str_lit ''agenda''
              \<and> type d \<noteq> str_lit ''planilhas'' \<longrightarrow>
            story = [Paragraph (title d) CustomTitle, Spacer 1 12])"
proof -
  obtain rest where "story = [Paragraph (title d) CustomTitle, Spacer 1 12] @ rest"
    using build_story_appends [OF assms] by blast
  then have "take 2 story = [Paragraph (title d) CustomTitle, Spacer 1 12]"
    by simp
  moreover have "story = [Paragraph (title d) CustomTitle, Spacer 1 12]"
    if "type d \<noteq> str_lit ''docs''" "type d \<noteq> str_lit ''agenda''"
      "type d \<noteq> str_lit ''planilhas''"
    using build_story_title_only [OF build_story_Inr_title [OF assms] that] assms by simp
  ultimately show ?thesis by blast
qed

text \<open>The theorem on an agenda that falls back to a paragraph.\<close>

theorem story_begins_with_title_witness:
  "build_story sample_lib
     \<lparr>title = str_lit ''t'', content = str_lit ''7'', type = str_lit ''agenda''\<rparr> =
   Inr [Paragraph (str_lit ''t'') CustomTitle, Spacer 1 12, Paragraph (str_lit ''7'') Normal]
   \<and> take 2 [Paragraph (str_lit ''t'') CustomTitle, Spacer 1 12, Paragraph (str_lit ''7'') Normal] =
       [Paragraph (str_lit ''t'') CustomTitle, Spacer 1 12]"
proof -
  let ?d = "\<lparr>title = str_lit ''t'', content = str_lit ''7'', type = str_lit ''agenda''\<rparr>"
  have h: "build_story sample_lib ?d =
     Inr [Paragraph (str_lit ''t'') CustomTitle, Spacer 1 12, Paragraph (str_lit ''7'') Normal]"
    by (simp add: build_story_def except_fallback_def agenda_try_def mk_Paragraph_def
        sample_lib_def sample_loads_def two_items_content_def example_content_def str_lit_def)
  from story_begins_with_title [OF h] h show ?thesis
    by simp
qed

end
